theory Spec2Isabelle
  imports Complex_Main
begin

section \<open>Numbers of the program\<close>

text \<open>
  The program \<^verbatim>\<open>symmetricinfo.py\<close> computes with Python scalars and with numpy arrays of
  64-bit floats. A finite float is modelled by the real number it stands for (no rounding, no
  overflow, no signed zero); what is kept of the two arithmetics is where they leave the
  finite reals:
  \<^item> Python's scalar operators raise \<^verbatim>\<open>ZeroDivisionError\<close> on a division by zero and on
    \<^verbatim>\<open>0 ** e\<close> with \<^verbatim>\<open>e < 0\<close>, and return a complex number for a negative base with a
    fractional exponent;
  \<^item> numpy's elementwise operators never raise: they return \<^verbatim>\<open>inf\<close>, \<^verbatim>\<open>-inf\<close> or
    \<^verbatim>\<open>nan\<close>, following the C function \<^verbatim>\<open>pow\<close> for \<^verbatim>\<open>**\<close>.
\<close>

datatype py_error = ZeroDivisionError | ValueError | IndexError | ComplexUtility

datatype pynum = PyReal real | PyComplex

datatype fl = Fin real | PInf | NInf | NaN

definition is_integral :: "real \<Rightarrow> bool" where
  "is_integral e = (of_int \<lfloor>e\<rfloor> = e)"

text \<open>The real value of \<^verbatim>\<open>x ** e\<close> where it is a real number.\<close>

definition real_pow :: "real \<Rightarrow> real \<Rightarrow> real" where
  "real_pow x e =
     (if 0 < x then x powr e
      else if x = 0 then (if e = 0 then 1 else 0)
      else x powi \<lfloor>e\<rfloor>)"

subsection \<open>Python scalars\<close>

definition py_pow :: "real \<Rightarrow> real \<Rightarrow> py_error + pynum" where
  "py_pow x e =
     (if x = 0 \<and> e < 0 then Inl ZeroDivisionError
      else if x < 0 \<and> \<not> is_integral e then Inr PyComplex
      else Inr (PyReal (real_pow x e)))"

fun py_scale :: "real \<Rightarrow> pynum \<Rightarrow> pynum" where
  "py_scale c (PyReal r) = PyReal (c * r)"
| "py_scale c PyComplex = PyComplex"

fun py_div :: "pynum \<Rightarrow> real \<Rightarrow> py_error + pynum" where
  "py_div (PyReal r) d = (if d = 0 then Inl ZeroDivisionError else Inr (PyReal (r / d)))"
| "py_div PyComplex d = (if d = 0 then Inl ZeroDivisionError else Inr PyComplex)"

fun py_add :: "pynum \<Rightarrow> pynum \<Rightarrow> pynum" where
  "py_add (PyReal a) (PyReal b) = PyReal (a + b)"
| "py_add _ _ = PyComplex"

subsection \<open>numpy elements\<close>

fun np_pow :: "fl \<Rightarrow> real \<Rightarrow> fl" where
  "np_pow (Fin r) e =
     (if e = 0 then Fin 1
      else if r = 0 then (if e < 0 then PInf else Fin 0)
      else if r < 0 \<and> \<not> is_integral e then NaN
      else Fin (real_pow r e))"
| "np_pow PInf e = (if e = 0 then Fin 1 else if e < 0 then Fin 0 else PInf)"
| "np_pow NInf e =
     (if e = 0 then Fin 1
      else if e < 0 then Fin 0
      else if is_integral e \<and> odd \<lfloor>e\<rfloor> then NInf else PInf)"
| "np_pow NaN e = (if e = 0 then Fin 1 else NaN)"

text \<open>\<^verbatim>\<open>c * a\<close>, \<^verbatim>\<open>c - a\<close> and \<^verbatim>\<open>a / d\<close> for a Python scalar and an array element.\<close>

fun np_scale :: "real \<Rightarrow> fl \<Rightarrow> fl" where
  "np_scale c (Fin r) = Fin (c * r)"
| "np_scale c PInf = (if 0 < c then PInf else if c < 0 then NInf else NaN)"
| "np_scale c NInf = (if 0 < c then NInf else if c < 0 then PInf else NaN)"
| "np_scale c NaN = NaN"

fun np_rsub :: "real \<Rightarrow> fl \<Rightarrow> fl" where
  "np_rsub c (Fin r) = Fin (c - r)"
| "np_rsub c PInf = NInf"
| "np_rsub c NInf = PInf"
| "np_rsub c NaN = NaN"

fun np_div :: "fl \<Rightarrow> real \<Rightarrow> fl" where
  "np_div (Fin r) d =
     (if d = 0 then (if 0 < r then PInf else if r < 0 then NInf else NaN)
      else Fin (r / d))"
| "np_div PInf d = (if d < 0 then NInf else PInf)"
| "np_div NInf d = (if d < 0 then PInf else NInf)"
| "np_div NaN d = NaN"

fun is_finite :: "fl \<Rightarrow> bool" where
  "is_finite (Fin r) = True"
| "is_finite _ = False"

text \<open>
  \<^verbatim>\<open>np.linspace(start, stop, num)\<close>: \<open>num\<close> samples from \<open>start\<close> to \<open>stop\<close>, both
  included; a negative \<open>num\<close> raises \<^verbatim>\<open>ValueError\<close>.
\<close>

definition linspace_pts :: "real \<Rightarrow> real \<Rightarrow> nat \<Rightarrow> real list" where
  "linspace_pts start stop n =
     (if n = 1 then [start]
      else map (\<lambda>i. start + real i * ((stop - start) / real (n - 1))) [0..<n])"

definition linspace :: "real \<Rightarrow> real \<Rightarrow> int \<Rightarrow> py_error + real list" where
  "linspace start stop num =
     (if num < 0 then Inl ValueError else Inr (linspace_pts start stop (nat num)))"

section \<open>The economic model\<close>

text \<open>
  \<^verbatim>\<open>
  def utility(wealth_no_accident, wealth_accident, probability, alpha):
      return (1 - probability) * wealth_no_accident ** (1 - alpha) / (1 - alpha) + \
             probability * wealth_accident ** (1 - alpha) / (1 - alpha)
  \<close>
  called on Python scalars.
\<close>

definition utility :: "real \<Rightarrow> real \<Rightarrow> real \<Rightarrow> real \<Rightarrow> py_error + pynum" where
  "utility wealth_no_accident wealth_accident probability alpha =
     (case py_pow wealth_no_accident (1 - alpha) of Inl e \<Rightarrow> Inl e | Inr a \<Rightarrow>
      case py_div (py_scale (1 - probability) a) (1 - alpha) of Inl e \<Rightarrow> Inl e | Inr t1 \<Rightarrow>
      case py_pow wealth_accident (1 - alpha) of Inl e \<Rightarrow> Inl e | Inr b \<Rightarrow>
      case py_div (py_scale probability b) (1 - alpha) of Inl e \<Rightarrow> Inl e | Inr t2 \<Rightarrow>
      Inr (py_add t1 t2))"

text \<open>
  \<^verbatim>\<open>
  def indifference_curve(wealth_no_accident, utility_level, probability, alpha):
      return ((utility_level * (1 - alpha) - (1 - probability) * wealth_no_accident ** (1 - alpha))
              / probability) ** (1 / (1 - alpha))
  \<close>
  called on a numpy array \<open>wealth_no_accident\<close> and scalars otherwise. \<open>radicand\<close> is the
  bracketed term for one element of the array; the only operation that can raise is the
  scalar division \<^verbatim>\<open>1 / (1 - alpha)\<close>.
\<close>

definition radicand :: "real \<Rightarrow> real \<Rightarrow> real \<Rightarrow> real \<Rightarrow> fl" where
  "radicand x utility_level probability alpha =
     np_div (np_rsub (utility_level * (1 - alpha))
                     (np_scale (1 - probability) (np_pow (Fin x) (1 - alpha))))
            probability"

definition indifference_curve :: "real list \<Rightarrow> real \<Rightarrow> real \<Rightarrow> real \<Rightarrow> py_error + fl list" where
  "indifference_curve wealth_no_accident utility_level probability alpha =
     (if 1 - alpha = 0 then Inl ZeroDivisionError
      else Inr (map (\<lambda>x. np_pow (radicand x utility_level probability alpha) (1 / (1 - alpha)))
                    wealth_no_accident))"

text \<open>
  \<^verbatim>\<open>
  def contract_possibility_line(W0, L, probability):
      coverage = np.linspace(0, L, 100)
      premium = probability * coverage
      wealth_no_accident = W0 - premium
      wealth_accident = W0 - premium - (L - coverage)
      return wealth_no_accident, wealth_accident
  \<close>
\<close>

definition contract_possibility_line :: "real \<Rightarrow> real \<Rightarrow> real \<Rightarrow> real list \<times> real list" where
  "contract_possibility_line W0 L probability =
     (let coverage = linspace_pts 0 L 100;
          premium = map (\<lambda>c. probability * c) coverage;
          wealth_no_accident = map (\<lambda>m. W0 - m) premium;
          wealth_accident = map (\<lambda>(m, c). W0 - m - (L - c)) (zip premium coverage)
      in (wealth_no_accident, wealth_accident))"

definition pooled_contract_line ::
  "real \<Rightarrow> real \<Rightarrow> real \<Rightarrow> real \<Rightarrow> real \<Rightarrow> real list \<times> real list" where
  "pooled_contract_line W0 L p_g p_s share_high_risk =
     (let expected_p = share_high_risk * p_s + (1 - share_high_risk) * p_g
      in contract_possibility_line W0 L expected_p)"

section \<open>The application: parameters, figure, sliders\<close>

text \<open>
  The module constants of the source. \<open>W0\<close> is a Python integer, since \<^verbatim>\<open>W0 + 50\<close> is
  the number of samples given to \<^verbatim>\<open>np.linspace\<close>.
\<close>

record params =
  W0 :: int
  L :: real
  p_s :: real
  p_g :: real
  alpha :: real
  share_high_risk :: real

definition default_params :: params where
  "default_params =
     \<lparr>W0 = 100, L = 40, p_s = 1/2, p_g = 1/4, alpha = 3, share_high_risk = 1/2\<rparr>"

text \<open>A \<^verbatim>\<open>go.Scatter\<close> trace, the figure with its fixed layout, and a \<^verbatim>\<open>dcc.Slider\<close>.\<close>

record trace =
  trace_name :: string
  trace_x :: "real list"
  trace_y :: "fl list"

record figure =
  data :: "trace list"
  xaxis_range :: "real \<times> real"
  yaxis_range :: "real \<times> real"
  title :: string

record slider =
  slider_min :: real
  slider_max :: real
  slider_value :: real
  slider_step :: real

text \<open>The module's state once it is loaded: its globals that the callback reads or writes.\<close>

record app =
  pars :: params
  x_vals :: "real list"
  fig :: figure
  s_slider :: slider
  g_slider :: slider

text \<open>
  The two \<^verbatim>\<open>dcc.Slider\<close> calls of the layout have the same shape:
  \<^verbatim>\<open>
  min=init_utility, max=max_utility + 0.5 * (max_utility - init_utility), value=init_utility,
  step=(max_utility + 0.5 * (max_utility - init_utility) - init_utility) / 100
  \<close>
\<close>

definition slider_config :: "real \<Rightarrow> real \<Rightarrow> slider" where
  "slider_config init_utility max_utility =
     \<lparr>slider_min = init_utility,
      slider_max = max_utility + 0.5 * (max_utility - init_utility),
      slider_value = init_utility,
      slider_step = (max_utility + 0.5 * (max_utility - init_utility) - init_utility) / 100\<rparr>"

definition scatter :: "string \<Rightarrow> real list \<Rightarrow> fl list \<Rightarrow> trace" where
  "scatter n xs ys = \<lparr>trace_name = n, trace_x = xs, trace_y = ys\<rparr>"

text \<open>
  Lines 39 to 125 of the source, run once when the module is loaded. A utility level that is a
  complex number is where the model stops (\<open>ComplexUtility\<close>).
\<close>

definition startup :: "params \<Rightarrow> py_error + app" where
  "startup P =
     (case linspace 0 (of_int (W0 P + 50)) (W0 P + 50) of Inl e \<Rightarrow> Inl e | Inr xv \<Rightarrow>
      case utility (of_int (W0 P)) (of_int (W0 P) - L P) (p_s P) (alpha P) of
        Inl e \<Rightarrow> Inl e | Inr init_utility_s \<Rightarrow>
      case utility (of_int (W0 P)) (of_int (W0 P) - L P) (p_g P) (alpha P) of
        Inl e \<Rightarrow> Inl e | Inr init_utility_g \<Rightarrow>
      case utility (of_int (W0 P) - p_g P * L P) (of_int (W0 P) - p_s P * L P) 0 (alpha P) of
        Inl e \<Rightarrow> Inl e | Inr max_utility_s \<Rightarrow>
      case utility (of_int (W0 P) - p_g P * L P) (of_int (W0 P) - p_s P * L P) 0 (alpha P) of
        Inl e \<Rightarrow> Inl e | Inr max_utility_g \<Rightarrow>
      case (init_utility_s, init_utility_g, max_utility_s, max_utility_g) of
        (PyReal ius, PyReal iug, PyReal mus, PyReal mug) \<Rightarrow>
          (case indifference_curve xv ius (p_s P) (alpha P) of
             Inl e \<Rightarrow> Inl e | Inr indifference_curve_s \<Rightarrow>
           case indifference_curve xv iug (p_g P) (alpha P) of
             Inl e \<Rightarrow> Inl e | Inr indifference_curve_g \<Rightarrow>
           let (contract_line_s_no_acc, contract_line_s_acc) =
                 contract_possibility_line (of_int (W0 P)) (L P) (p_s P);
               (contract_line_g_no_acc, contract_line_g_acc) =
                 contract_possibility_line (of_int (W0 P)) (L P) (p_g P);
               (pooled_line_no_acc, pooled_line_acc) =
                 pooled_contract_line (of_int (W0 P)) (L P) (p_g P) (p_s P) (share_high_risk P);
               full_insurance_s = (of_int (W0 P) - p_s P * L P, of_int (W0 P) - p_s P * L P);
               full_insurance_g = (of_int (W0 P) - p_g P * L P, of_int (W0 P) - p_g P * L P)
           in Inr \<lparr>pars = P, x_vals = xv,
                fig = \<lparr>data =
                  [scatter ''Contract Line (High Risk)'' contract_line_s_no_acc
                     (map Fin contract_line_s_acc),
                   scatter ''Contract Line (Low Risk)'' contract_line_g_no_acc
                     (map Fin contract_line_g_acc),
                   scatter ''Pooled Contract Line'' pooled_line_no_acc (map Fin pooled_line_acc),
                   scatter ''Certainty Line'' [0, 150] [Fin 0, Fin 150],
                   scatter ''Full Insurance (Bad Type)'' [fst full_insurance_s]
                     [Fin (snd full_insurance_s)],
                   scatter ''Full Insurance (Good Type)'' [fst full_insurance_g]
                     [Fin (snd full_insurance_g)],
                   scatter ''A (No insurance)'' [of_int (W0 P)] [Fin (of_int (W0 P) - L P)],
                   scatter ''I_s (High Risk)'' xv indifference_curve_s,
                   scatter ''I_g (Low Risk)'' xv indifference_curve_g],
                  xaxis_range = (50, 130), yaxis_range = (50, 130),
                  title = ''Insurance Contracts and Indifference Curves''\<rparr>,
                s_slider = slider_config ius mus,
                g_slider = slider_config iug mug\<rparr>)
      | _ \<Rightarrow> Inl ComplexUtility)"

text \<open>
  Python's indexing of a sequence of length \<open>n\<close>, negative indices counting from the end, and
  the assignment \<^verbatim>\<open>fig.data[i].y = v\<close>.
\<close>

definition py_index :: "nat \<Rightarrow> int \<Rightarrow> py_error + nat" where
  "py_index n i =
     (if 0 \<le> i \<and> i < int n then Inr (nat i)
      else if - int n \<le> i \<and> i < 0 then Inr (nat (int n + i))
      else Inl IndexError)"

definition set_trace_y :: "int \<Rightarrow> fl list \<Rightarrow> trace list \<Rightarrow> py_error + trace list" where
  "set_trace_y i v ts =
     (case py_index (length ts) i of
        Inl e \<Rightarrow> Inl e
      | Inr k \<Rightarrow> Inr (ts[k := (ts ! k)\<lparr>trace_y := v\<rparr>]))"

text \<open>
  \<^verbatim>\<open>
  def update_plot(new_utility_s, new_utility_g):
      updated_indifference_curve_s = indifference_curve(x_vals, new_utility_s, p_s, alpha)
      updated_indifference_curve_g = indifference_curve(x_vals, new_utility_g, p_g, alpha)
      fig.data[-2].y = updated_indifference_curve_s
      fig.data[-1].y = updated_indifference_curve_g
      return fig
  \<close>
  The callback of both sliders: it receives the current value of each and mutates the global
  figure, which is the state returned here.
\<close>

definition update_plot :: "app \<Rightarrow> real \<Rightarrow> real \<Rightarrow> py_error + app" where
  "update_plot A new_utility_s new_utility_g =
     (case indifference_curve (x_vals A) new_utility_s (p_s (pars A)) (alpha (pars A)) of
        Inl e \<Rightarrow> Inl e | Inr updated_indifference_curve_s \<Rightarrow>
      case indifference_curve (x_vals A) new_utility_g (p_g (pars A)) (alpha (pars A)) of
        Inl e \<Rightarrow> Inl e | Inr updated_indifference_curve_g \<Rightarrow>
      case set_trace_y (- 2) updated_indifference_curve_s (data (fig A)) of
        Inl e \<Rightarrow> Inl e | Inr d1 \<Rightarrow>
      case set_trace_y (- 1) updated_indifference_curve_g d1 of
        Inl e \<Rightarrow> Inl e | Inr d2 \<Rightarrow>
      Inr (A\<lparr>fig := (fig A)\<lparr>data := d2\<rparr>\<rparr>))"


text \<open>
  The state of the program as it is written, with the constants of its first lines;
  \<open>startup default_params\<close> does return a state (lemma \<open>startup_default\<close> below).
\<close>

definition initial_app :: app where
  "initial_app = projr (startup default_params)"

section \<open>Notions of the specification\<close>

text \<open>The invariant that the specification asks of the economic parameters.\<close>

definition valid_params :: "params \<Rightarrow> bool" where
  "valid_params P \<longleftrightarrow>
     0 < p_g P \<and> p_g P < p_s P \<and> p_s P < 1 \<and> 0 < L P \<and> L P < of_int (W0 P) \<and>
     1 < alpha P \<and> 0 \<le> share_high_risk P \<and> share_high_risk P \<le> 1"

text \<open>
  The figure shows the slider values \<open>s\<close> and \<open>g\<close>: its last two traces hold the two
  indifference curves of these utility levels. This is the state after the callback has run
  with \<open>s\<close> and \<open>g\<close>.
\<close>

definition shows_levels :: "app \<Rightarrow> real \<Rightarrow> real \<Rightarrow> bool" where
  "shows_levels A s g \<longleftrightarrow>
     2 \<le> length (data (fig A)) \<and>
     indifference_curve (x_vals A) s (p_s (pars A)) (alpha (pars A))
       = Inr (trace_y (data (fig A) ! (length (data (fig A)) - 2))) \<and>
     indifference_curve (x_vals A) g (p_g (pars A)) (alpha (pars A))
       = Inr (trace_y (data (fig A) ! (length (data (fig A)) - 1)))"

text \<open>
  The clamp of a slider value into the configured range of its slider, which the
  specification places before the recomputation. No function of the source computes it.
\<close>

definition spec_clamp :: "slider \<Rightarrow> real \<Rightarrow> real" where
  "spec_clamp sl v = max (slider_min sl) (min (slider_max sl) v)"

section \<open>Properties of the contract line\<close>

lemma length_linspace_pts: "length (linspace_pts start stop n) = n"
  by (simp add: linspace_pts_def)

lemma nth_linspace_pts:
  "i < n \<Longrightarrow> linspace_pts start stop n ! i =
     (if n = 1 then start else start + real i * ((stop - start) / real (n - 1)))"
  by (auto simp add: linspace_pts_def)

lemma length_contract_possibility_line:
  "length (fst (contract_possibility_line w l p)) = 100 \<and>
   length (snd (contract_possibility_line w l p)) = 100"
  by (simp add: contract_possibility_line_def Let_def length_linspace_pts)

lemma nth_contract_possibility_line:
  assumes "i < 100"
  shows "fst (contract_possibility_line w l p) ! i = w - p * (l * real i / 99)"
    and "snd (contract_possibility_line w l p) ! i
           = w - p * (l * real i / 99) - (l - l * real i / 99)"
  using assms
  by (simp_all add: contract_possibility_line_def Let_def length_linspace_pts nth_linspace_pts
      mult.commute)

lemma last_by_length: "length xs = Suc n \<Longrightarrow> last xs = xs ! n"
  by (metis diff_Suc_1 last_conv_nth length_0_conv nat.distinct(1))

text \<open>
  Claim C10: for all parameters, so in particular for a probability in \<open>(0,1)\<close> and
  \<open>0 < L < W0\<close>, each of the two arrays returned by \<open>contract_possibility_line\<close> has 100
  elements, the first point is the no-insurance allocation \<open>(W0, W0 - L)\<close>, and the last
  point is the full-insurance allocation \<open>(W0 - p L, W0 - p L)\<close>, with the same wealth in
  both states.
\<close>

theorem contract_line_endpoints:
  "length (fst (contract_possibility_line w l p)) = 100 \<and>
   length (snd (contract_possibility_line w l p)) = 100 \<and>
   (fst (contract_possibility_line w l p) ! 0, snd (contract_possibility_line w l p) ! 0)
     = (w, w - l) \<and>
   (last (fst (contract_possibility_line w l p)), last (snd (contract_possibility_line w l p)))
     = (w - p * l, w - p * l)"
proof -
  have len: "length (fst (contract_possibility_line w l p)) = 100"
    "length (snd (contract_possibility_line w l p)) = 100"
    using length_contract_possibility_line by simp_all
  have first: "fst (contract_possibility_line w l p) ! 0 = w"
    "snd (contract_possibility_line w l p) ! 0 = w - l"
    by (simp_all add: nth_contract_possibility_line)
  have "last (fst (contract_possibility_line w l p)) = fst (contract_possibility_line w l p) ! 99"
    using len(1) by (intro last_by_length) simp
  then have l1: "last (fst (contract_possibility_line w l p)) = w - p * l"
    by (simp add: nth_contract_possibility_line)
  have "last (snd (contract_possibility_line w l p)) = snd (contract_possibility_line w l p) ! 99"
    using len(2) by (intro last_by_length) simp
  then have l2: "last (snd (contract_possibility_line w l p)) = w - p * l"
    by (simp add: nth_contract_possibility_line)
  show ?thesis using len first l1 l2 by simp
qed

text \<open>
  Claim C5, as the code has it: the coverage grid has 100 points, the \<open>i\<close>-th being
  \<open>L i / 99\<close> (from 0 to \<open>L\<close> in equal steps), and at each of them the two arrays hold
  \<open>W0 - p c\<close> and \<open>W0 - p c - (L - c)\<close>. With \<open>W0 = 100\<close>, \<open>L = 40\<close>, \<open>p = 0.5\<close> the point
  for \<open>c = 0\<close> is \<open>(100, 60)\<close> and the point for \<open>c = 40\<close> is \<open>(80, 80)\<close>.
\<close>

theorem contract_line_pointwise:
  "(\<forall>i<100. linspace_pts 0 l 100 ! i = l * real i / 99 \<and>
       fst (contract_possibility_line w l p) ! i = w - p * (linspace_pts 0 l 100 ! i) \<and>
       snd (contract_possibility_line w l p) ! i
         = w - p * (linspace_pts 0 l 100 ! i) - (l - linspace_pts 0 l 100 ! i)) \<and>
   length (linspace_pts 0 l 100) = 100 \<and>
   linspace_pts 0 40 100 ! 0 = 0 \<and>
   (fst (contract_possibility_line 100 40 (1/2)) ! 0,
    snd (contract_possibility_line 100 40 (1/2)) ! 0) = (100, 60) \<and>
   linspace_pts 0 40 100 ! 99 = 40 \<and>
   (fst (contract_possibility_line 100 40 (1/2)) ! 99,
    snd (contract_possibility_line 100 40 (1/2)) ! 99) = (80, 80)"
  by (simp add: nth_contract_possibility_line nth_linspace_pts length_linspace_pts mult.commute)

theorem contract_line_pointwise_witness:
  "(50::nat) < 100 \<and> linspace_pts 0 40 100 ! 50 = 2000 / 99 \<and>
   fst (contract_possibility_line 100 40 (1/2)) ! 50 = 100 - 1000 / 99 \<and>
   snd (contract_possibility_line 100 40 (1/2)) ! 50 = 100 - 1000 / 99 - (40 - 2000 / 99)"
proof -
  have "\<forall>i<100. linspace_pts 0 40 100 ! i = 40 * real i / 99 \<and>
       fst (contract_possibility_line 100 40 (1/2)) ! i
         = 100 - (1/2) * (linspace_pts 0 40 100 ! i) \<and>
       snd (contract_possibility_line 100 40 (1/2)) ! i
         = 100 - (1/2) * (linspace_pts 0 40 100 ! i) - (40 - linspace_pts 0 40 100 ! i)"
    using contract_line_pointwise [of 40 100 "1/2"] by blast
  then have "linspace_pts 0 40 100 ! 50 = 40 * real 50 / 99 \<and>
       fst (contract_possibility_line 100 40 (1/2)) ! 50
         = 100 - (1/2) * (linspace_pts 0 40 100 ! 50) \<and>
       snd (contract_possibility_line 100 40 (1/2)) ! 50
         = 100 - (1/2) * (linspace_pts 0 40 100 ! 50) - (40 - linspace_pts 0 40 100 ! 50)"
    by simp
  then show ?thesis by simp
qed

text \<open>
  Claim C5 as it is written gives \<open>(100, 100)\<close> for the coverage \<open>c = 40\<close>, the last point
  of the grid. The code returns \<open>(80, 80)\<close> there: the premium \<open>0.5 * 40 = 20\<close> is paid in
  both states.
\<close>

theorem contract_line_full_cover_counterexample:
  "linspace_pts 0 40 100 ! 99 = 40 \<and>
   (fst (contract_possibility_line 100 40 (1/2)) ! 99,
    snd (contract_possibility_line 100 40 (1/2)) ! 99) \<noteq> (100, 100)"
  by (simp add: nth_contract_possibility_line nth_linspace_pts)

section \<open>Properties of the utility and of the indifference curve\<close>

lemma radicand_pos:
  "0 < x \<Longrightarrow> a \<noteq> 1 \<Longrightarrow> p \<noteq> 0 \<Longrightarrow>
   radicand x u p a = Fin ((u * (1 - a) - (1 - p) * x powr (1 - a)) / p)"
  by (simp add: radicand_def real_pow_def)

lemma utility_pos:
  "0 < w1 \<Longrightarrow> 0 < w2 \<Longrightarrow> a \<noteq> 1 \<Longrightarrow>
   utility w1 w2 p a
     = Inr (PyReal ((1 - p) * w1 powr (1 - a) / (1 - a) + p * w2 powr (1 - a) / (1 - a)))"
  by (simp add: utility_def py_pow_def real_pow_def)

lemma indifference_curve_nth:
  "a \<noteq> 1 \<Longrightarrow> \<exists>ys. indifference_curve xs u p a = Inr ys \<and> length ys = length xs \<and>
     (\<forall>i<length xs. ys ! i = np_pow (radicand (xs ! i) u p a) (1 / (1 - a)))"
  by (simp add: indifference_curve_def)



text \<open>
  Claim C9, as the code has it: for a probability in \<open>(0,1)\<close>, \<open>alpha > 1\<close> with
  \<open>1 / (1 - alpha)\<close> not an integer (as for the \<open>alpha = 3\<close> of the program), and an
  element \<open>x\<close> whose bracketed radicand is a negative number, \<open>indifference_curve\<close> does
  not raise: it returns an array of the length of its input whose element for \<open>x\<close> is
  \<open>nan\<close>.
\<close>

theorem indifference_curve_negative_radicand:
  assumes "0 < p" "p < 1" "1 < a" "\<not> is_integral (1 / (1 - a))"
    and "i < length xs" "radicand (xs ! i) u p a = Fin r" "r < 0"
  shows "\<exists>ys. indifference_curve xs u p a = Inr ys \<and> length ys = length xs \<and>
           ys ! i = NaN \<and> \<not> is_finite (ys ! i)"
proof -
  have a1: "a \<noteq> 1" using assms by auto
  obtain ys where ys: "indifference_curve xs u p a = Inr ys" "length ys = length xs"
    and nth: "\<forall>i<length xs. ys ! i = np_pow (radicand (xs ! i) u p a) (1 / (1 - a))"
    using indifference_curve_nth [OF a1] by blast
  have "ys ! i = np_pow (Fin r) (1 / (1 - a))"
    using nth assms by simp
  then have "ys ! i = NaN" using assms a1 by simp
  then show ?thesis using ys by simp
qed

theorem indifference_curve_negative_radicand_witness:
  "(0::real) < 1/2 \<and> (1/2::real) < 1 \<and> (1::real) < 3 \<and> \<not> is_integral (1 / (1 - 3)) \<and>
   radicand ([1] ! 0) 0 (1/2) 3 = Fin (- 1) \<and>
   (\<exists>ys. indifference_curve [1] 0 (1/2) 3 = Inr ys \<and> ys ! 0 = NaN)"
proof -
  have h1: "\<not> is_integral (1 / (1 - 3))" by (simp add: is_integral_def)
  have h2: "radicand ([1] ! 0) 0 (1/2) 3 = Fin (- 1)" by (simp add: radicand_def real_pow_def)
  show ?thesis
    using indifference_curve_negative_radicand [of "1/2" 3 0 "[1]" 0 "- 1", OF _ _ _ h1 _ h2]
      h1 h2 by auto
qed

text \<open>
  Claim C9 as it is written, for every \<open>alpha > 1\<close>, fails at \<open>alpha = 2\<close>: the exponent
  \<^verbatim>\<open>1 / (1 - alpha)\<close> is \<open>-1\<close>, and the negative radicand \<open>-1\<close> (at \<open>x = 1\<close>, \<open>u = 0\<close>,
  \<open>p = 0.5\<close>) gives the finite value \<open>-1\<close>.
\<close>

theorem indifference_curve_alpha_two_counterexample:
  "radicand 1 0 (1/2) 2 = Fin (- 1) \<and>
   indifference_curve [1] 0 (1/2) 2 = Inr [Fin (- 1)] \<and> is_finite (Fin (- 1))"
proof -
  have "\<lfloor>- 1 :: real\<rfloor> = - 1" by (rule floor_unique) simp_all
  then show ?thesis
    by (simp add: radicand_def indifference_curve_def real_pow_def is_integral_def power_int_def)
qed

text \<open>
  At \<open>x = 0\<close>, the first sample of the program's grid, \<^verbatim>\<open>x ** (1 - alpha)\<close> is \<open>inf\<close>, the
  radicand is \<open>-inf\<close>, and its power with the negative exponent is the finite value 0.
\<close>

lemma indifference_curve_at_zero:
  "radicand 0 u (1/2) 3 = NInf \<and> indifference_curve [0] u (1/2) 3 = Inr [Fin 0]"
  by (simp add: radicand_def indifference_curve_def)

subsection \<open>The no-insurance utility is below the efficient one\<close>






section \<open>The callback and the state of the application\<close>

lemma valid_default: "valid_params default_params"
  by (simp add: valid_params_def default_params_def)

lemma py_index_from_end:
  "k \<le> n \<Longrightarrow> 0 < k \<Longrightarrow> py_index n (- int k) = Inr (n - k)"
  by (auto simp add: py_index_def)

lemma set_trace_y_from_end:
  "py_index (length ts) i = Inr k \<Longrightarrow> set_trace_y i v ts = Inr (ts[k := (ts ! k)\<lparr>trace_y := v\<rparr>])"
  by (simp add: set_trace_y_def)

text \<open>
  What a returning call of \<open>update_plot\<close> has done, and when the call returns.
\<close>

lemma update_plot_Inr:
  assumes "update_plot A s g = Inr A'"
  shows "alpha (pars A) \<noteq> 1 \<and> 2 \<le> length (data (fig A)) \<and>
    (\<exists>cs cg. indifference_curve (x_vals A) s (p_s (pars A)) (alpha (pars A)) = Inr cs \<and>
       indifference_curve (x_vals A) g (p_g (pars A)) (alpha (pars A)) = Inr cg \<and>
       A' = A\<lparr>fig := (fig A)\<lparr>data := (data (fig A))
          [length (data (fig A)) - 2 := (data (fig A) ! (length (data (fig A)) - 2))\<lparr>trace_y := cs\<rparr>,
           length (data (fig A)) - 1 := (data (fig A) ! (length (data (fig A)) - 1))\<lparr>trace_y := cg\<rparr>]\<rparr>\<rparr>)"
proof -
  define n where "n = length (data (fig A))"
  obtain cs where cs: "indifference_curve (x_vals A) s (p_s (pars A)) (alpha (pars A)) = Inr cs"
    using assms by (auto simp: update_plot_def split: sum.splits)
  obtain cg where cg: "indifference_curve (x_vals A) g (p_g (pars A)) (alpha (pars A)) = Inr cg"
    using assms cs by (auto simp: update_plot_def split: sum.splits)
  have a1: "alpha (pars A) \<noteq> 1"
    using cs by (auto simp: indifference_curve_def split: if_splits)
  obtain d1 where d1: "set_trace_y (- 2) cs (data (fig A)) = Inr d1"
    using assms cs cg by (auto simp: update_plot_def split: sum.splits)
  have n2: "2 \<le> n"
    using d1 by (auto simp: set_trace_y_def py_index_def n_def split: sum.splits if_splits)
  have i2: "py_index n (- 2) = Inr (n - 2)"
    using py_index_from_end [of 2 n] n2 by simp
  have i1: "py_index n (- 1) = Inr (n - 1)"
    using py_index_from_end [of 1 n] n2 by simp
  have d1': "d1 = (data (fig A))[n - 2 := (data (fig A) ! (n - 2))\<lparr>trace_y := cs\<rparr>]"
    using d1 i2 by (simp add: set_trace_y_def n_def)
  have len1: "length d1 = n" by (simp add: d1' n_def)
  have nth1: "d1 ! (n - 1) = data (fig A) ! (n - 1)"
    using n2 by (simp add: d1')
  have d2: "set_trace_y (- 1) cg d1
      = Inr (d1[n - 1 := (data (fig A) ! (n - 1))\<lparr>trace_y := cg\<rparr>])"
    using i1 len1 nth1 by (simp add: set_trace_y_def)
  have "A' = A\<lparr>fig := (fig A)\<lparr>data := d1[n - 1 := (data (fig A) ! (n - 1))\<lparr>trace_y := cg\<rparr>]\<rparr>\<rparr>"
    using assms cs cg d1 d2 by (simp add: update_plot_def)
  then show ?thesis using a1 n2 cs cg d1' by (auto simp: n_def)
qed

lemma update_plot_total:
  assumes "alpha (pars A) \<noteq> 1" "2 \<le> length (data (fig A))"
  shows "\<exists>A'. update_plot A s g = Inr A'"
proof -
  define n where "n = length (data (fig A))"
  have i2: "py_index n (- 2) = Inr (n - 2)"
    using py_index_from_end [of 2 n] assms by (simp add: n_def)
  have i1: "py_index n (- 1) = Inr (n - 1)"
    using py_index_from_end [of 1 n] assms by (simp add: n_def)
  show ?thesis
    using assms i1 i2
    by (simp add: update_plot_def indifference_curve_def set_trace_y_def n_def)
qed

text \<open>What \<open>startup\<close> has built when it returns, and that it returns for valid parameters.\<close>

lemma startup_Inr:
  assumes "startup P = Inr A"
  shows "\<exists>ius iug mu cs cg.
     0 \<le> W0 P + 50 \<and>
     utility (of_int (W0 P)) (of_int (W0 P) - L P) (p_s P) (alpha P) = Inr (PyReal ius) \<and>
     utility (of_int (W0 P)) (of_int (W0 P) - L P) (p_g P) (alpha P) = Inr (PyReal iug) \<and>
     utility (of_int (W0 P) - p_g P * L P) (of_int (W0 P) - p_s P * L P) 0 (alpha P)
       = Inr (PyReal mu) \<and>
     indifference_curve (x_vals A) ius (p_s P) (alpha P) = Inr cs \<and>
     indifference_curve (x_vals A) iug (p_g P) (alpha P) = Inr cg \<and>
     pars A = P \<and>
     x_vals A = linspace_pts 0 (of_int (W0 P + 50)) (nat (W0 P + 50)) \<and>
     s_slider A = slider_config ius mu \<and> g_slider A = slider_config iug mu \<and>
     length (data (fig A)) = 9 \<and>
     data (fig A) ! 7 = scatter ''I_s (High Risk)'' (x_vals A) cs \<and>
     data (fig A) ! 8 = scatter ''I_g (Low Risk)'' (x_vals A) cg"
  using assms
  by (auto simp: startup_def linspace_def Let_def
      split: sum.splits pynum.splits prod.splits if_splits)

lemma startup_valid:
  assumes "valid_params P"
  shows "\<exists>A. startup P = Inr A"
proof -
  define w where "w = (of_int (W0 P) :: real)"
  have v: "0 < p_g P" "p_g P < p_s P" "p_s P < 1" "0 < L P" "L P < w" "1 < alpha P"
    using assms by (simp_all add: valid_params_def w_def)
  have a1: "alpha P \<noteq> 1" "1 - alpha P \<noteq> 0" using v by simp_all
  have wpos: "0 < w" "0 < w - L P" using v by simp_all
  have "p_s P * L P < 1 * L P" using v by (intro mult_strict_right_mono) simp_all
  then have whpos: "0 < w - p_s P * L P" using v by linarith
  have "p_g P * L P < 1 * L P" using v by (intro mult_strict_right_mono) simp_all
  then have wlpos: "0 < w - p_g P * L P" using v by linarith
  have "0 < W0 P" using wpos by (simp add: w_def)
  then have n: "\<not> W0 P + 50 < 0" by simp
  show ?thesis
    unfolding startup_def w_def [symmetric]
    using n a1
    by (simp add: utility_pos [OF wpos a1(1)] utility_pos [OF wlpos whpos a1(1)]
        linspace_def indifference_curve_def Let_def split: prod.splits)
qed

lemma startup_default: "startup default_params = Inr initial_app"
  using startup_valid [OF valid_default] by (auto simp: initial_app_def)

text \<open>
  The figure shows the slider values after the start and after every call; a call that
  changes one of the two values replaces the \<open>y\<close> array of one trace.
\<close>

lemma startup_shows_levels:
  assumes "startup P = Inr A"
  shows "shows_levels A (slider_value (s_slider A)) (slider_value (g_slider A))"
  using startup_Inr [OF assms]
  by (auto simp: shows_levels_def slider_config_def scatter_def)

lemma update_plot_shows_levels:
  assumes "update_plot A s g = Inr A'"
  shows "shows_levels A' s g"
  using update_plot_Inr [OF assms]
  by (auto simp: shows_levels_def)

lemma update_plot_high:
  assumes "shows_levels A s g" "update_plot A s' g = Inr A'"
  shows "\<exists>cs. indifference_curve (x_vals A) s' (p_s (pars A)) (alpha (pars A)) = Inr cs \<and>
     A' = A\<lparr>fig := (fig A)\<lparr>data := (data (fig A))
       [length (data (fig A)) - 2
          := (data (fig A) ! (length (data (fig A)) - 2))\<lparr>trace_y := cs\<rparr>]\<rparr>\<rparr>"
proof -
  define n where "n = length (data (fig A))"
  define d where "d = data (fig A)"
  obtain cs cg where cs: "indifference_curve (x_vals A) s' (p_s (pars A)) (alpha (pars A)) = Inr cs"
    and cg: "indifference_curve (x_vals A) g (p_g (pars A)) (alpha (pars A)) = Inr cg"
    and A': "A' = A\<lparr>fig := (fig A)\<lparr>data := d
          [n - 2 := (d ! (n - 2))\<lparr>trace_y := cs\<rparr>, n - 1 := (d ! (n - 1))\<lparr>trace_y := cg\<rparr>]\<rparr>\<rparr>"
    using update_plot_Inr [OF assms(2)] unfolding n_def d_def by blast
  have "cg = trace_y (d ! (n - 1))"
    using assms(1) cg by (simp add: shows_levels_def n_def d_def)
  then have same: "(d ! (n - 1))\<lparr>trace_y := cg\<rparr> = d ! (n - 1)" by simp
  have n2: "2 \<le> n" using assms(1) by (simp add: shows_levels_def n_def)
  then have "(d[n - 2 := (d ! (n - 2))\<lparr>trace_y := cs\<rparr>]) ! (n - 1) = d ! (n - 1)"
    by simp
  then have "d[n - 2 := (d ! (n - 2))\<lparr>trace_y := cs\<rparr>, n - 1 := d ! (n - 1)]
      = d[n - 2 := (d ! (n - 2))\<lparr>trace_y := cs\<rparr>]"
    by (metis list_update_id)
  then show ?thesis using cs A' same by (simp add: n_def d_def)
qed

lemma update_plot_low:
  assumes "shows_levels A s g" "update_plot A s g' = Inr A'"
  shows "\<exists>cg. indifference_curve (x_vals A) g' (p_g (pars A)) (alpha (pars A)) = Inr cg \<and>
     A' = A\<lparr>fig := (fig A)\<lparr>data := (data (fig A))
       [length (data (fig A)) - 1
          := (data (fig A) ! (length (data (fig A)) - 1))\<lparr>trace_y := cg\<rparr>]\<rparr>\<rparr>"
proof -
  define n where "n = length (data (fig A))"
  define d where "d = data (fig A)"
  obtain cs cg where cs: "indifference_curve (x_vals A) s (p_s (pars A)) (alpha (pars A)) = Inr cs"
    and cg: "indifference_curve (x_vals A) g' (p_g (pars A)) (alpha (pars A)) = Inr cg"
    and A': "A' = A\<lparr>fig := (fig A)\<lparr>data := d
          [n - 2 := (d ! (n - 2))\<lparr>trace_y := cs\<rparr>, n - 1 := (d ! (n - 1))\<lparr>trace_y := cg\<rparr>]\<rparr>\<rparr>"
    using update_plot_Inr [OF assms(2)] unfolding n_def d_def by blast
  have "cs = trace_y (d ! (n - 2))"
    using assms(1) cs by (simp add: shows_levels_def n_def d_def)
  then have "(d ! (n - 2))\<lparr>trace_y := cs\<rparr> = d ! (n - 2)" by simp
  then have "d[n - 2 := (d ! (n - 2))\<lparr>trace_y := cs\<rparr>] = d" by simp
  then show ?thesis using cg A' by (simp add: n_def d_def)
qed


section \<open>The slider configuration\<close>

text \<open>A utility that is a real number was computed without an error, from real powers.\<close>

lemma py_add_real:
  "py_add x y = PyReal m \<Longrightarrow> \<exists>a b. x = PyReal a \<and> y = PyReal b \<and> m = a + b"
  by (cases x; cases y) simp_all

lemma py_div_real:
  "py_div v d = Inr (PyReal q) \<Longrightarrow> \<exists>r. v = PyReal r \<and> d \<noteq> 0 \<and> q = r / d"
  by (cases v) (simp_all split: if_splits)

lemma py_scale_real:
  "py_scale c v = PyReal q \<Longrightarrow> \<exists>r. v = PyReal r \<and> q = c * r"
  by (cases v) simp_all

lemma utility_real:
  assumes "utility w1 w2 p a = Inr (PyReal u)"
  shows "\<exists>r1 r2. py_pow w1 (1 - a) = Inr (PyReal r1) \<and> py_pow w2 (1 - a) = Inr (PyReal r2) \<and>
           1 - a \<noteq> 0 \<and> u = (1 - p) * r1 / (1 - a) + p * r2 / (1 - a)"
proof -
  obtain x1 t1 x2 t2 where x1: "py_pow w1 (1 - a) = Inr x1"
    and t1: "py_div (py_scale (1 - p) x1) (1 - a) = Inr t1"
    and x2: "py_pow w2 (1 - a) = Inr x2"
    and t2: "py_div (py_scale p x2) (1 - a) = Inr t2"
    and sum: "py_add t1 t2 = PyReal u"
    using assms by (auto simp: utility_def split: sum.splits)
  obtain q1 q2 where q: "t1 = PyReal q1" "t2 = PyReal q2" "u = q1 + q2"
    using py_add_real [OF sum] by blast
  obtain s1 where s1: "py_scale (1 - p) x1 = PyReal s1" "1 - a \<noteq> 0" "q1 = s1 / (1 - a)"
    using py_div_real t1 q(1) by blast
  obtain s2 where s2: "py_scale p x2 = PyReal s2" "q2 = s2 / (1 - a)"
    using py_div_real t2 q(2) by blast
  obtain r1 where r1: "x1 = PyReal r1" "s1 = (1 - p) * r1"
    using py_scale_real [OF s1(1)] by blast
  obtain r2 where r2: "x2 = PyReal r2" "s2 = p * r2"
    using py_scale_real [OF s2(1)] by blast
  show ?thesis using x1 x2 r1 r2 s1 s2 q by auto
qed

lemma utility_prob_zero:
  assumes "utility w w2 0 a = Inr (PyReal m)"
  shows "utility w w p a = Inr (PyReal m)"
proof -
  obtain r r2 where r: "py_pow w (1 - a) = Inr (PyReal r)" "1 - a \<noteq> 0"
    and m: "m = (1 - 0) * r / (1 - a) + 0 * r2 / (1 - a)"
    using utility_real [OF assms] by blast
  have "utility w w p a = Inr (PyReal ((1 - p) * r / (1 - a) + p * r / (1 - a)))"
    using r by (simp add: utility_def)
  moreover have "(1 - p) * r / (1 - a) + p * r / (1 - a) = ((1 - p) * r + p * r) / (1 - a)"
    by (simp add: add_divide_distrib)
  moreover have "(1 - p) * r + p * r = r" by (simp add: algebra_simps)
  ultimately show ?thesis using m by simp
qed

text \<open>The two sliders of the program as it is written.\<close>

lemma initial_sliders:
  "s_slider initial_app = slider_config (- 17 / 180000) (- 1 / 16200)"
  "g_slider initial_app = slider_config (- 13 / 180000) (- 1 / 16200)"
proof -
  have u1: "utility 100 (100 - 40) (1/2) 3 = Inr (PyReal (- 17 / 180000))"
    by (simp add: utility_pos powr_minus divide_simps)
  have u2: "utility 100 (100 - 40) (1/4) 3 = Inr (PyReal (- 13 / 180000))"
    by (simp add: utility_pos powr_minus divide_simps)
  have u3: "utility (100 - 1/4 * 40) (100 - 1/2 * 40) 0 3 = Inr (PyReal (- 1 / 16200))"
    by (simp add: utility_pos powr_minus divide_simps)
  from startup_Inr [OF startup_default] u1 u2 u3
  show "s_slider initial_app = slider_config (- 17 / 180000) (- 1 / 16200)"
    and "g_slider initial_app = slider_config (- 13 / 180000) (- 1 / 16200)"
    by (auto simp: default_params_def)
qed

text \<open>
  Claim C1, as the code has it: when the module has been loaded, each slider has as \<open>min\<close>
  and as initial value the utility of the no-trade allocation for its type,
  \<open>utility W0 (W0 - L) p_type alpha\<close>; as \<open>max\<close> the value \<open>mu + 0.5 (mu - min)\<close>, where
  \<open>mu = utility (W0 - p_g L) (W0 - p_s L) 0 alpha\<close> is the same number for both sliders, the
  utility of the full-insurance allocation of the low-risk type; and as \<open>step\<close> the
  hundredth of \<open>max - min\<close>.
\<close>

theorem slider_configuration:
  assumes "startup P = Inr A"
  shows "\<exists>ius iug mu.
     utility (of_int (W0 P)) (of_int (W0 P) - L P) (p_s P) (alpha P) = Inr (PyReal ius) \<and>
     utility (of_int (W0 P)) (of_int (W0 P) - L P) (p_g P) (alpha P) = Inr (PyReal iug) \<and>
     utility (of_int (W0 P) - p_g P * L P) (of_int (W0 P) - p_s P * L P) 0 (alpha P)
       = Inr (PyReal mu) \<and>
     utility (of_int (W0 P) - p_g P * L P) (of_int (W0 P) - p_g P * L P) (p_g P) (alpha P)
       = Inr (PyReal mu) \<and>
     slider_min (s_slider A) = ius \<and> slider_max (s_slider A) = mu + 0.5 * (mu - ius) \<and>
     slider_value (s_slider A) = slider_min (s_slider A) \<and>
     slider_step (s_slider A) = (slider_max (s_slider A) - slider_min (s_slider A)) / 100 \<and>
     slider_min (g_slider A) = iug \<and> slider_max (g_slider A) = mu + 0.5 * (mu - iug) \<and>
     slider_value (g_slider A) = slider_min (g_slider A) \<and>
     slider_step (g_slider A) = (slider_max (g_slider A) - slider_min (g_slider A)) / 100"
proof -
  obtain ius iug mu where
    u: "utility (of_int (W0 P)) (of_int (W0 P) - L P) (p_s P) (alpha P) = Inr (PyReal ius)"
      "utility (of_int (W0 P)) (of_int (W0 P) - L P) (p_g P) (alpha P) = Inr (PyReal iug)"
      "utility (of_int (W0 P) - p_g P * L P) (of_int (W0 P) - p_s P * L P) 0 (alpha P)
         = Inr (PyReal mu)"
    and sl: "s_slider A = slider_config ius mu" "g_slider A = slider_config iug mu"
    using startup_Inr [OF assms] by blast
  have full: "utility (of_int (W0 P) - p_g P * L P) (of_int (W0 P) - p_g P * L P) (p_g P)
      (alpha P) = Inr (PyReal mu)"
    using u(3) by (rule utility_prob_zero)
  show ?thesis
    using u full sl by (simp add: slider_config_def)
qed

theorem slider_configuration_witness:
  "startup default_params = Inr initial_app \<and>
   utility 100 (100 - 40) (1/2) 3 = Inr (PyReal (slider_min (s_slider initial_app))) \<and>
   slider_min (s_slider initial_app) = - 17 / 180000 \<and>
   slider_max (s_slider initial_app) = - 49 / 1080000 \<and>
   slider_value (s_slider initial_app) = - 17 / 180000 \<and>
   slider_step (s_slider initial_app) = (- 49 / 1080000 - (- 17 / 180000)) / 100"
proof -
  have "slider_value (s_slider initial_app) = slider_min (s_slider initial_app) \<and>
     slider_step (s_slider initial_app)
       = (slider_max (s_slider initial_app) - slider_min (s_slider initial_app)) / 100 \<and>
     utility (of_int (W0 default_params)) (of_int (W0 default_params) - L default_params)
       (p_s default_params) (alpha default_params)
       = Inr (PyReal (slider_min (s_slider initial_app)))"
    using slider_configuration [OF startup_default] by auto
  moreover have "slider_min (s_slider initial_app) = - 17 / 180000"
    "slider_max (s_slider initial_app) = - 49 / 1080000"
    by (simp_all add: initial_sliders slider_config_def)
  ultimately show ?thesis
    using startup_default by (simp add: default_params_def)
qed

text \<open>
  Claim C1 as it is written takes for each slider the full-insurance allocation of its own
  type. For the high-risk slider of the program that allocation is \<open>(80, 80)\<close>, of utility
  \<open>- 1 / 12800\<close>; the slider's \<open>max\<close> is not this utility expanded by half its distance to
  \<open>min\<close>.
\<close>

theorem high_slider_max_counterexample:
  "utility (100 - 1/2 * 40) (100 - 1/2 * 40) (1/2) 3 = Inr (PyReal (- 1 / 12800)) \<and>
   slider_min (s_slider initial_app) = - 17 / 180000 \<and>
   slider_max (s_slider initial_app) \<noteq> - 1 / 12800 + 0.5 * (- 1 / 12800 - (- 17 / 180000))"
proof -
  have "utility (100 - 1/2 * 40) (100 - 1/2 * 40) (1/2) 3 = Inr (PyReal (- 1 / 12800))"
    by (simp add: utility_pos powr_minus divide_simps)
  then show ?thesis by (simp add: initial_sliders slider_config_def)
qed

section \<open>Slider events\<close>

text \<open>
  Claim C3: in a state whose figure shows the slider values \<open>s\<close> and \<open>g\<close> (the state after
  the start, and after every call of the callback), an event that moves the high-risk slider
  to \<open>s'\<close> and leaves \<open>g\<close> returns the same state but for the \<open>y\<close> array of the trace
  before the last, which is the curve of \<open>s'\<close>: the number of traces, every other trace and
  the \<open>x\<close> array of that trace are unchanged. The same holds for the low-risk slider and
  the last trace.
\<close>

theorem slider_event_changes_one_curve:
  assumes "shows_levels A s g"
  shows "(update_plot A s' g = Inr A' \<longrightarrow>
      (\<exists>cs. indifference_curve (x_vals A) s' (p_s (pars A)) (alpha (pars A)) = Inr cs \<and>
         A' = A\<lparr>fig := (fig A)\<lparr>data := (data (fig A))
           [length (data (fig A)) - 2
              := (data (fig A) ! (length (data (fig A)) - 2))\<lparr>trace_y := cs\<rparr>]\<rparr>\<rparr>) \<and>
      length (data (fig A')) = length (data (fig A)) \<and>
      (\<forall>i<length (data (fig A)). i \<noteq> length (data (fig A)) - 2 \<longrightarrow>
         data (fig A') ! i = data (fig A) ! i) \<and>
      trace_x (data (fig A') ! (length (data (fig A)) - 2))
        = trace_x (data (fig A) ! (length (data (fig A)) - 2))) \<and>
    (update_plot A s g' = Inr A'' \<longrightarrow>
      (\<exists>cg. indifference_curve (x_vals A) g' (p_g (pars A)) (alpha (pars A)) = Inr cg \<and>
         A'' = A\<lparr>fig := (fig A)\<lparr>data := (data (fig A))
           [length (data (fig A)) - 1
              := (data (fig A) ! (length (data (fig A)) - 1))\<lparr>trace_y := cg\<rparr>]\<rparr>\<rparr>) \<and>
      length (data (fig A'')) = length (data (fig A)) \<and>
      (\<forall>i<length (data (fig A)). i \<noteq> length (data (fig A)) - 1 \<longrightarrow>
         data (fig A'') ! i = data (fig A) ! i) \<and>
      trace_x (data (fig A'') ! (length (data (fig A)) - 1))
        = trace_x (data (fig A) ! (length (data (fig A)) - 1)))"
proof -
  have n2: "2 \<le> length (data (fig A))" using assms by (simp add: shows_levels_def)
  show ?thesis
  proof (intro conjI impI)
    assume up: "update_plot A s' g = Inr A'"
    from update_plot_high [OF assms up] n2
    show "\<exists>cs. indifference_curve (x_vals A) s' (p_s (pars A)) (alpha (pars A)) = Inr cs \<and>
         A' = A\<lparr>fig := (fig A)\<lparr>data := (data (fig A))
           [length (data (fig A)) - 2
              := (data (fig A) ! (length (data (fig A)) - 2))\<lparr>trace_y := cs\<rparr>]\<rparr>\<rparr>"
      and "length (data (fig A')) = length (data (fig A))"
      and "\<forall>i<length (data (fig A)). i \<noteq> length (data (fig A)) - 2 \<longrightarrow>
         data (fig A') ! i = data (fig A) ! i"
      and "trace_x (data (fig A') ! (length (data (fig A)) - 2))
        = trace_x (data (fig A) ! (length (data (fig A)) - 2))"
      by auto
  next
    assume up: "update_plot A s g' = Inr A''"
    from update_plot_low [OF assms up] n2
    show "\<exists>cg. indifference_curve (x_vals A) g' (p_g (pars A)) (alpha (pars A)) = Inr cg \<and>
         A'' = A\<lparr>fig := (fig A)\<lparr>data := (data (fig A))
           [length (data (fig A)) - 1
              := (data (fig A) ! (length (data (fig A)) - 1))\<lparr>trace_y := cg\<rparr>]\<rparr>\<rparr>"
      and "length (data (fig A'')) = length (data (fig A))"
      and "\<forall>i<length (data (fig A)). i \<noteq> length (data (fig A)) - 1 \<longrightarrow>
         data (fig A'') ! i = data (fig A) ! i"
      and "trace_x (data (fig A'') ! (length (data (fig A)) - 1))
        = trace_x (data (fig A) ! (length (data (fig A)) - 1))"
      by auto
  qed
qed

theorem slider_event_changes_one_curve_witness:
  "shows_levels initial_app (slider_value (s_slider initial_app))
     (slider_value (g_slider initial_app)) \<and>
   length (data (fig initial_app)) = 9 \<and>
   (\<exists>A'. update_plot initial_app 0 (slider_value (g_slider initial_app)) = Inr A' \<and>
      length (data (fig A')) = 9 \<and>
      (\<forall>i<9. i \<noteq> 7 \<longrightarrow> data (fig A') ! i = data (fig initial_app) ! i) \<and>
      trace_x (data (fig A') ! 7) = trace_x (data (fig initial_app) ! 7))"
proof -
  have sh: "shows_levels initial_app (slider_value (s_slider initial_app))
     (slider_value (g_slider initial_app))"
    using startup_default by (rule startup_shows_levels)
  have len: "length (data (fig initial_app)) = 9" and a: "alpha (pars initial_app) \<noteq> 1"
    using startup_Inr [OF startup_default] by (auto simp: default_params_def)
  obtain A' where A': "update_plot initial_app 0 (slider_value (g_slider initial_app)) = Inr A'"
    using update_plot_total [OF a] len by fastforce
  show ?thesis
    using sh len A'
      slider_event_changes_one_curve [OF sh, of 0 A']
    by auto
qed



section \<open>The grid of the indifference curves\<close>






section \<open>Slider values outside the slider range\<close>

text \<open>
  In a state reached by the program, the callback returns for every pair of values, and the
  last two traces of the figure it returns hold the curves of exactly these values.
\<close>

lemma update_plot_curves:
  assumes "shows_levels A s0 g0"
  shows "\<exists>A' cs cg. update_plot A s g = Inr A' \<and>
     indifference_curve (x_vals A) s (p_s (pars A)) (alpha (pars A)) = Inr cs \<and>
     indifference_curve (x_vals A) g (p_g (pars A)) (alpha (pars A)) = Inr cg \<and>
     trace_y (data (fig A') ! (length (data (fig A')) - 2)) = cs \<and>
     trace_y (data (fig A') ! (length (data (fig A')) - 1)) = cg"
proof -
  have "alpha (pars A) \<noteq> 1"
    using assms by (auto simp: shows_levels_def indifference_curve_def split: if_splits)
  moreover have "2 \<le> length (data (fig A))" using assms by (simp add: shows_levels_def)
  ultimately obtain A' where A': "update_plot A s g = Inr A'"
    using update_plot_total by blast
  have xp: "x_vals A' = x_vals A" "pars A' = pars A"
    using update_plot_Inr [OF A'] by auto
  have "shows_levels A' s g" using A' by (rule update_plot_shows_levels)
  then show ?thesis using A' xp by (auto simp: shows_levels_def)
qed

text \<open>
  Claim C2, as the code has it: for every incoming pair of slider values, inside the
  configured range of the sliders or outside, the callback returns (it rejects nothing) and
  recomputes each curve from the value as it came in; no clamp is applied.
\<close>

theorem update_plot_takes_values_unclamped:
  assumes "shows_levels A s0 g0"
  shows "\<exists>A' cs cg. update_plot A s g = Inr A' \<and>
     indifference_curve (x_vals A) s (p_s (pars A)) (alpha (pars A)) = Inr cs \<and>
     indifference_curve (x_vals A) g (p_g (pars A)) (alpha (pars A)) = Inr cg \<and>
     trace_y (data (fig A') ! (length (data (fig A')) - 2)) = cs \<and>
     trace_y (data (fig A') ! (length (data (fig A')) - 1)) = cg"
  using assms by (rule update_plot_curves)

text \<open>The program as it is written: its constants, its grid and its nine traces.\<close>

lemma initial_app_facts:
  "pars initial_app = default_params"
  "x_vals initial_app = linspace_pts 0 150 150"
  "length (data (fig initial_app)) = 9"
  using startup_Inr [OF startup_default] by (auto simp: default_params_def)

theorem update_plot_takes_values_unclamped_witness:
  "shows_levels initial_app (slider_value (s_slider initial_app))
     (slider_value (g_slider initial_app)) \<and>
   slider_max (s_slider initial_app) < 0 \<and>
   (\<exists>A' cs. update_plot initial_app 0 (slider_value (g_slider initial_app)) = Inr A' \<and>
      indifference_curve (x_vals initial_app) 0 (1/2) 3 = Inr cs \<and>
      trace_y (data (fig A') ! 7) = cs)"
proof -
  have sh: "shows_levels initial_app (slider_value (s_slider initial_app))
     (slider_value (g_slider initial_app))"
    using startup_default by (rule startup_shows_levels)
  have mx: "slider_max (s_slider initial_app) < 0"
    by (simp add: initial_sliders slider_config_def)
  obtain A' cs where A': "update_plot initial_app 0 (slider_value (g_slider initial_app)) = Inr A'"
    and cs: "indifference_curve (x_vals initial_app) 0 (p_s (pars initial_app))
        (alpha (pars initial_app)) = Inr cs"
    and y: "trace_y (data (fig A') ! (length (data (fig A')) - 2)) = cs"
    using update_plot_takes_values_unclamped [OF sh, of 0 "slider_value (g_slider initial_app)"]
    by blast
  have "length (data (fig A')) = 9"
    using update_plot_Inr [OF A'] initial_app_facts by auto
  then have "trace_y (data (fig A') ! 7) = cs" using y by simp
  moreover have "indifference_curve (x_vals initial_app) 0 (1/2) 3 = Inr cs"
    using cs by (simp add: initial_app_facts default_params_def)
  ultimately show ?thesis using sh mx A' by blast
qed

text \<open>
  Claim C2 as it is written treats a value above \<open>max\<close> as \<open>max\<close>. For the program as it is
  written the value 0 is above the \<open>max\<close> of the high-risk slider, and the callback called
  with 0 does not return what it returns for \<open>max\<close>: at \<open>x = 150\<close> the curve of 0 is
  \<open>nan\<close>, the curve of \<open>max\<close> is a number.
\<close>

theorem update_plot_clamp_counterexample:
  "slider_max (s_slider initial_app) < 0 \<and>
   spec_clamp (s_slider initial_app) 0 = slider_max (s_slider initial_app) \<and>
   update_plot initial_app 0 (slider_value (g_slider initial_app))
     \<noteq> update_plot initial_app (spec_clamp (s_slider initial_app) 0)
         (slider_value (g_slider initial_app))"
proof -
  define g where "g = slider_value (g_slider initial_app)"
  define m where "m = (- 49 / 1080000 :: real)"
  have mx: "slider_max (s_slider initial_app) = m" "slider_min (s_slider initial_app) < m"
    by (simp_all add: initial_sliders slider_config_def m_def)
  have cl: "spec_clamp (s_slider initial_app) 0 = m"
    using mx by (simp add: spec_clamp_def m_def)
  have sh: "shows_levels initial_app (slider_value (s_slider initial_app)) g"
    unfolding g_def using startup_default by (rule startup_shows_levels)
  have x149: "x_vals initial_app ! 149 = 150"
    by (simp add: initial_app_facts nth_linspace_pts)
  have len: "length (x_vals initial_app) = 150"
    by (simp add: initial_app_facts length_linspace_pts)
  have nint: "\<not> is_integral (- (1 / 2))" by (simp add: is_integral_def)
  have curve: "\<exists>cs. indifference_curve (x_vals initial_app) u (1/2) 3 = Inr cs \<and>
      cs ! 149 = np_pow (radicand 150 u (1/2) 3) (- (1 / 2))" for u
    using indifference_curve_nth [of 3 "x_vals initial_app" u "1/2"] len x149 by auto
  have r0: "radicand 150 0 (1/2) 3 = Fin (- 1 / 22500)"
    by (simp add: radicand_pos powr_minus)
  have rm: "radicand 150 m (1/2) 3 = Fin (37 / 270000)"
    by (simp add: radicand_pos powr_minus m_def)
  have y0: "np_pow (radicand 150 0 (1/2) 3) (- (1 / 2)) = NaN"
    using nint by (simp add: r0)
  have ym: "np_pow (radicand 150 m (1/2) 3) (- (1 / 2)) \<noteq> NaN"
    by (simp add: rm)
  have pa: "p_s (pars initial_app) = 1/2" "alpha (pars initial_app) = 3"
    by (simp_all add: initial_app_facts default_params_def)
  obtain A0 c0 where A0: "update_plot initial_app 0 g = Inr A0"
    and c0: "indifference_curve (x_vals initial_app) 0 (1/2) 3 = Inr c0"
      "trace_y (data (fig A0) ! (length (data (fig A0)) - 2)) = c0"
    using update_plot_curves [OF sh, of 0 g] unfolding pa by blast
  obtain Am cm where Am: "update_plot initial_app m g = Inr Am"
    and cm: "indifference_curve (x_vals initial_app) m (1/2) 3 = Inr cm"
      "trace_y (data (fig Am) ! (length (data (fig Am)) - 2)) = cm"
    using update_plot_curves [OF sh, of m g] unfolding pa by blast
  have "c0 ! 149 = NaN" using curve [of 0] c0(1) y0 by auto
  moreover have "cm ! 149 \<noteq> NaN" using curve [of m] cm(1) ym by auto
  ultimately have "c0 \<noteq> cm" by auto
  then have "A0 \<noteq> Am" using c0(2) cm(2) by auto
  then have "update_plot initial_app 0 g \<noteq> update_plot initial_app m g"
    using A0 Am by simp
  then show ?thesis using mx cl by (simp add: g_def m_def)
qed

end
